theory Spec2Isabelle
  imports Main "HOL-Library.Log_Nat"
begin

section \<open>Characters and strings\<close>

text \<open>
  A Python \<open>str\<close> is a sequence of code points. The model works on the code points
  below 256: a \<^typ>\<open>char\<close> stands for the code point \<open>of_char c\<close>, a \<open>str\<close> is a
  \<^typ>\<open>string\<close>. The tables below are the ones of \<open>str.isspace\<close>, \<open>str.lower\<close> and of
  the \<open>re\<close> classes on that range.
\<close>

definition is_space :: "char \<Rightarrow> bool" where
  \<comment> \<open>\<open>str.isspace\<close> and the class \<open>\s\<close>: 9-13, 28-32, 133, 160\<close>
  "is_space c = (let n = (of_char c :: nat) in
     (9 \<le> n \<and> n \<le> 13) \<or> (28 \<le> n \<and> n \<le> 32) \<or> n = 133 \<or> n = 160)"

definition lower_chr :: "char \<Rightarrow> char" where
  \<comment> \<open>\<open>str.lower\<close> on one code point: A-Z, and 192-222 except the sign 215\<close>
  "lower_chr c = (let n = (of_char c :: nat) in
     if (65 \<le> n \<and> n \<le> 90) \<or> (192 \<le> n \<and> n \<le> 222 \<and> n \<noteq> 215)
     then char_of (n + 32) else c)"

definition lower :: "string \<Rightarrow> string" where
  "lower s = map lower_chr s"

definition upper_chr :: "char \<Rightarrow> char" where
  \<comment> \<open>\<open>str.upper\<close> on one code point whose capital is below 256; the source applies it
      to its own ASCII degree words only\<close>
  "upper_chr c = (let n = (of_char c :: nat) in
     if (97 \<le> n \<and> n \<le> 122) \<or> (224 \<le> n \<and> n \<le> 254 \<and> n \<noteq> 247)
     then char_of (n - 32) else c)"

definition upper :: "string \<Rightarrow> string" where
  "upper s = map upper_chr s"

definition is_digit :: "char \<Rightarrow> bool" where
  \<comment> \<open>the class \<open>\d\<close>\<close>
  "is_digit c = (let n = (of_char c :: nat) in 48 \<le> n \<and> n \<le> 57)"

definition is_word :: "char \<Rightarrow> bool" where
  \<comment> \<open>the class \<open>\w\<close>: letters, digits and other numerics, the underscore\<close>
  "is_word c = (let n = (of_char c :: nat) in
     (48 \<le> n \<and> n \<le> 57) \<or> (65 \<le> n \<and> n \<le> 90) \<or> n = 95 \<or> (97 \<le> n \<and> n \<le> 122)
     \<or> n = 170 \<or> n = 178 \<or> n = 179 \<or> n = 181 \<or> n = 185 \<or> n = 186
     \<or> (188 \<le> n \<and> n \<le> 190) \<or> (192 \<le> n \<and> n \<le> 214) \<or> (216 \<le> n \<and> n \<le> 246)
     \<or> (248 \<le> n \<and> n \<le> 255))"

definition newline :: char where
  "newline = CHR 0x0A"

definition strip :: "string \<Rightarrow> string" where
  \<comment> \<open>\<open>s.strip()\<close>\<close>
  "strip s = rev (dropWhile is_space (rev (dropWhile is_space s)))"

fun split_by :: "(char \<Rightarrow> bool) \<Rightarrow> string \<Rightarrow> string list" where
  \<comment> \<open>a split at every separator character; empty pieces are kept\<close>
  "split_by P [] = [[]]"
| "split_by P (c # cs) =
     (if P c then [] # split_by P cs
      else (case split_by P cs of [] \<Rightarrow> [[c]] | w # ws \<Rightarrow> (c # w) # ws))"

definition split_lines :: "string \<Rightarrow> string list" where
  \<comment> \<open>\<open>s.split('\n')\<close>\<close>
  "split_lines s = split_by (\<lambda>c. c = newline) s"

definition split_ws :: "string \<Rightarrow> string list" where
  \<comment> \<open>\<open>s.split()\<close>: the pieces between runs of whitespace, none empty\<close>
  "split_ws s = filter (\<lambda>w. w \<noteq> []) (split_by is_space s)"

function collapse_ws :: "string \<Rightarrow> string" where
  \<comment> \<open>\<open>re.sub(r'\s+', ' ', s)\<close>: every maximal run of whitespace becomes one space\<close>
  "collapse_ws [] = []"
| "collapse_ws (c # cs) =
     (if is_space c then CHR '' '' # collapse_ws (dropWhile is_space cs)
      else c # collapse_ws cs)"
  by pat_completeness auto
termination
  by (relation "measure length") (auto simp: length_dropWhile_le less_Suc_eq_le)

fun starts_with :: "string \<Rightarrow> string \<Rightarrow> bool" where
  "starts_with [] s = True"
| "starts_with (p # ps) [] = False"
| "starts_with (p # ps) (c # cs) = (p = c \<and> starts_with ps cs)"

fun contains :: "string \<Rightarrow> string \<Rightarrow> bool" where
  \<comment> \<open>\<open>sub in s\<close>\<close>
  "contains sub [] = (sub = [])"
| "contains sub (c # cs) = (starts_with sub (c # cs) \<or> contains sub cs)"

definition substring :: "string \<Rightarrow> nat \<Rightarrow> nat \<Rightarrow> string" where
  \<comment> \<open>\<open>s[i:j]\<close>\<close>
  "substring s i j = take (j - i) (drop i s)"

section \<open>Python numbers\<close>

text \<open>
  The score starts as the \<open>int\<close> 0 and becomes a \<open>float\<close> with the first coverage term.
  A Python \<open>float\<close> is an IEEE 754 double; its value is a rational, and every operation
  returns the exact result rounded to the nearest double, ties to the even significand.
  Integers below \<open>2 ^ 53\<close> are doubles, so one type of values serves both: \<^typ>\<open>rat\<close>,
  with \<open>fl\<close> applied after each operation. All values of the scorer lie between 0 and
  100, far from overflow.
\<close>

definition pow2 :: "int \<Rightarrow> rat" where
  "pow2 e = (if 0 \<le> e then 2 ^ nat e else 1 / 2 ^ nat (- e))"

definition rne :: "rat \<Rightarrow> int" where
  \<comment> \<open>round to the nearest integer, a tie to the even one\<close>
  "rne q = (let f = \<lfloor>q\<rfloor>; d = q - of_int f in
     if d < 1 / 2 then f else if 1 / 2 < d then f + 1 else if even f then f else f + 1)"

definition binexp :: "rat \<Rightarrow> int" where
  \<comment> \<open>the binary exponent \<open>\<lfloor>log\<^sub>2 \<bar>q\<bar>\<rfloor>\<close> of a non-zero rational\<close>
  "binexp q = (case quotient_of \<bar>q\<bar> of (a, b) \<Rightarrow>
     let d = bitlen a - bitlen b in if pow2 d \<le> \<bar>q\<bar> then d else d - 1)"

definition fl :: "rat \<Rightarrow> rat" where
  \<comment> \<open>the nearest double: 53 significant bits, subnormals below \<open>2 ^ -1022\<close>\<close>
  "fl q = (if q = 0 then 0
     else let u = pow2 (max (binexp q) (- 1022) - 52) in of_int (rne (q / u)) * u)"

definition py_truediv :: "nat \<Rightarrow> nat \<Rightarrow> rat" where
  \<comment> \<open>\<open>len(a) / len(b)\<close> of two ints, the divisor not zero: the quotient, rounded once\<close>
  "py_truediv m n = fl (of_nat m / of_nat n)"

definition py_mul :: "rat \<Rightarrow> rat \<Rightarrow> rat" where
  "py_mul x y = fl (x * y)"

definition py_add :: "rat \<Rightarrow> rat \<Rightarrow> rat" where
  "py_add x y = fl (x + y)"

definition py_round2 :: "rat \<Rightarrow> rat" where
  \<comment> \<open>\<open>round(x, 2)\<close>: the exact value of x to two decimals, ties to even, then the nearest
      double of that decimal; an int is returned as it is, which is the same value\<close>
  "py_round2 x = fl (of_int (rne (x * 100)) / 100)"

section \<open>Data classes\<close>

type_synonym pydict = "(string \<times> string) list"

record JobDescription =
  jd_id :: string
  title :: string
  company :: string
  must_have_skills :: "string list"
  good_to_have_skills :: "string list"
  experience_required :: string
  description :: string
  location :: string

record Resume =
  resume_id :: string
  name :: string
  email :: string
  skills :: "string list"
  experience :: "pydict list"
  education :: "pydict list"
  projects :: "pydict list"
  raw_text :: string

record EvaluationResult =
  er_resume_id :: string
  er_job_id :: string
  relevance_score :: rat
  matched_skills :: "string list"
  missing_skills :: "string list"
  verdict :: string

section \<open>Python sets\<close>

text \<open>
  A \<open>set\<close> value is held as a list without duplicates. \<open>list(s)\<close> returns the elements
  in an order that Python does not specify (it follows the hashes, which change from
  process to process, and the history of the table): the order is a parameter \<open>h\<close> of the
  model, a key for each set value by which its elements are sorted, so that every order
  is the order of some \<open>h\<close>.
\<close>

type_synonym order = "string list \<Rightarrow> string \<Rightarrow> nat"

definition py_set :: "string list \<Rightarrow> string list" where
  "py_set xs = remdups xs"

definition intersection :: "string list \<Rightarrow> string list \<Rightarrow> string list" where
  "intersection a b = filter (\<lambda>x. x \<in> set b) a"

definition union_set :: "string list \<Rightarrow> string list \<Rightarrow> string list" where
  "union_set a b = a @ filter (\<lambda>x. x \<notin> set a) b"

definition difference :: "string list \<Rightarrow> string list \<Rightarrow> string list" where
  "difference a b = filter (\<lambda>x. x \<notin> set b) a"

definition py_list :: "order \<Rightarrow> string list \<Rightarrow> string list" where
  "py_list h s = sort_key (h s) s"

section \<open>RelevanceEvaluator\<close>

definition evaluate :: "order \<Rightarrow> Resume \<Rightarrow> JobDescription \<Rightarrow> EvaluationResult" where
  "evaluate h resume job_desc =
    (let resume_skills = py_set (map lower (skills resume));
         must_have = py_set (map lower (must_have_skills job_desc));
         good_to_have = py_set (map lower (good_to_have_skills job_desc));
         matched_must_have = intersection resume_skills must_have;
         matched_good_to_have = intersection resume_skills good_to_have;
         matched = py_list h (union_set matched_must_have matched_good_to_have);
         missing_must_have = difference must_have resume_skills;
         missing = py_list h missing_must_have;
         score0 = 0;
         score1 = (if must_have \<noteq> []
                   then py_add score0
                     (py_mul (py_truediv (length matched_must_have) (length must_have)) 50)
                   else score0);
         score2 = (if good_to_have \<noteq> []
                   then py_add score1
                     (py_mul (py_truediv (length matched_good_to_have) (length good_to_have)) 20)
                   else score1);
         score3 = (if experience resume \<noteq> [] then py_add score2 15 else score2);
         score4 = (if education resume \<noteq> [] then py_add score3 10 else score3);
         score5 = (if projects resume \<noteq> [] then py_add score4 5 else score4);
         score = min 100 score5;
         v = (if 75 \<le> score then ''HIGH'' else if 50 \<le> score then ''MEDIUM'' else ''LOW'')
     in \<lparr> er_resume_id = resume_id resume,
          er_job_id = jd_id job_desc,
          relevance_score = py_round2 score,
          matched_skills = matched,
          missing_skills = missing,
          verdict = v \<rparr>)"

section \<open>Regular expressions\<close>

text \<open>
  The patterns of the source are written as terms of \<open>regex\<close>, and matched as the \<open>re\<close>
  module matches: by backtracking. \<open>ms\<close> returns, for a pattern and a position in the
  text, every way to match from there, in the order in which the backtracking matcher
  tries them (a greedy star the longest first, a lazy star the shortest first, an
  alternation from left to right); the matcher's answer is the first. A state is the
  position reached and the span of group 1, when set. Every star of the source's
  patterns has a body that takes at least one character.
\<close>

datatype catom = Ch char | Rng char char | Sp | Dg

datatype regex =
    Cls bool "catom list"
  | Eps
  | Cat regex regex
  | Alt regex regex
  | Star regex
  | LazyStar regex
  | Grp regex
  | EndZ
  | WordB

type_synonym mstate = "nat \<times> (nat \<times> nat) option"

fun atom_match :: "bool \<Rightarrow> catom \<Rightarrow> char \<Rightarrow> bool" where
  \<comment> \<open>with IGNORECASE a literal matches both cases; the case-insensitive patterns of the
      source have no range\<close>
  "atom_match ic (Ch x) c = (if ic then lower_chr c = lower_chr x else c = x)"
| "atom_match ic (Rng a b) c = ((of_char a :: nat) \<le> of_char c \<and> (of_char c :: nat) \<le> of_char b)"
| "atom_match ic Sp c = is_space c"
| "atom_match ic Dg c = is_digit c"

definition cls_match :: "bool \<Rightarrow> bool \<Rightarrow> catom list \<Rightarrow> char \<Rightarrow> bool" where
  \<comment> \<open>\<open>[...]\<close> when \<open>pos\<close>, \<open>[^...]\<close> otherwise\<close>
  "cls_match ic pos as c = (list_ex (\<lambda>a. atom_match ic a c) as = pos)"

definition word_boundary :: "string \<Rightarrow> nat \<Rightarrow> bool" where
  \<comment> \<open>\<open>\b\<close>: a word character on exactly one side\<close>
  "word_boundary t i =
     ((0 < i \<and> i \<le> length t \<and> is_word (t ! (i - 1))) \<noteq> (i < length t \<and> is_word (t ! i)))"

function ms :: "bool \<Rightarrow> string \<Rightarrow> regex \<Rightarrow> mstate \<Rightarrow> mstate list" where
  "ms ic t (Cls pos as) s =
     (if fst s < length t \<and> cls_match ic pos as (t ! fst s) then [(Suc (fst s), snd s)] else [])"
| "ms ic t Eps s = [s]"
| "ms ic t (Cat a b) s = concat (map (ms ic t b) (ms ic t a s))"
| "ms ic t (Alt a b) s = ms ic t a s @ ms ic t b s"
| "ms ic t (Star a) s =
     concat (map (ms ic t (Star a))
       (filter (\<lambda>s'. fst s < fst s' \<and> fst s' \<le> length t) (ms ic t a s))) @ [s]"
| "ms ic t (LazyStar a) s =
     s # concat (map (ms ic t (LazyStar a))
       (filter (\<lambda>s'. fst s < fst s' \<and> fst s' \<le> length t) (ms ic t a s)))"
| "ms ic t (Grp a) s = map (\<lambda>s'. (fst s', Some (fst s, fst s'))) (ms ic t a s)"
| "ms ic t EndZ s = (if fst s = length t then [s] else [])"
| "ms ic t WordB s = (if word_boundary t (fst s) then [s] else [])"
  by pat_completeness auto
termination
  by (relation "inv_image (less_than <*lex*> less_than)
        (\<lambda>(ic, t, r, s). (size r, length t - fst s))") auto

record match =
  m_start :: nat
  m_end :: nat
  m_group :: "(nat \<times> nat) option"

fun search_at :: "bool \<Rightarrow> string \<Rightarrow> regex \<Rightarrow> nat list \<Rightarrow> match option" where
  "search_at ic t r [] = None"
| "search_at ic t r (i # starts) =
     (case ms ic t r (i, None) of
        [] \<Rightarrow> search_at ic t r starts
      | s # _ \<Rightarrow> Some \<lparr> m_start = i, m_end = fst s, m_group = snd s \<rparr>)"

definition search :: "bool \<Rightarrow> regex \<Rightarrow> string \<Rightarrow> match option" where
  \<comment> \<open>\<open>re.search(pattern, text, flags)\<close>: the match at the leftmost start that has one\<close>
  "search ic r t = search_at ic t r [0..<Suc (length t)]"

definition group0 :: "string \<Rightarrow> match \<Rightarrow> string" where
  "group0 t m = substring t (m_start m) (m_end m)"

definition group1 :: "string \<Rightarrow> match \<Rightarrow> string" where
  \<comment> \<open>\<open>match.group(1)\<close>; group 1 takes part in every match of the source's patterns\<close>
  "group1 t m = (case m_group m of None \<Rightarrow> [] | Some (i, j) \<Rightarrow> substring t i j)"

definition lit :: "char \<Rightarrow> regex" where
  "lit c = Cls True [Ch c]"

fun str :: "string \<Rightarrow> regex" where
  "str [] = Eps"
| "str (c # cs) = Cat (lit c) (str cs)"

definition opt :: "regex \<Rightarrow> regex" where
  \<comment> \<open>\<open>r?\<close>\<close>
  "opt r = Alt r Eps"

definition plus :: "regex \<Rightarrow> regex" where
  \<comment> \<open>\<open>r+\<close>\<close>
  "plus r = Cat r (Star r)"

fun seq :: "regex list \<Rightarrow> regex" where
  "seq [] = Eps"
| "seq [r] = r"
| "seq (r # rs) = Cat r (seq rs)"

definition ws :: regex where
  \<comment> \<open>\<open>\s\<close>\<close>
  "ws = Cls True [Sp]"

definition digit :: regex where
  \<comment> \<open>\<open>\d\<close>\<close>
  "digit = Cls True [Dg]"

definition not_nl :: regex where
  \<comment> \<open>\<open>[^\n]\<close>\<close>
  "not_nl = Cls False [Ch newline]"

definition section_body :: regex where
  \<comment> \<open>\<open>([^\n]+(?:\n[^\n]*)*?)(?:\n\s*\n|\Z)\<close>, the tail of every section pattern\<close>
  "section_body =
     Cat (Grp (Cat (plus not_nl) (LazyStar (Cat (lit newline) (Star not_nl)))))
         (Alt (seq [lit newline, Star ws, lit newline]) EndZ)"

definition heading_sep :: regex where
  \<comment> \<open>\<open>\s*:?\s*\<close>\<close>
  "heading_sep = seq [Star ws, opt (lit CHR '':''), Star ws]"

definition is_separator :: "char \<Rightarrow> bool" where
  \<comment> \<open>the class of \<open>re.split(r'[,;\|\n\<bullet>\-]', s)\<close>; the bullet is a code point above 255\<close>
  "is_separator c = (c = CHR '','' \<or> c = CHR '';'' \<or> c = CHR ''|'' \<or> c = newline \<or> c = CHR ''-'')"

section \<open>ResumeParser\<close>

text \<open>
  \<open>hashlib.md5(s.encode()).hexdigest()\<close> is the library's: a parameter \<open>md5hex\<close>. The
  clock is read once per parse, \<open>now\<close> being \<open>str(datetime.now())\<close>.
\<close>

definition email_pattern :: regex where
  \<comment> \<open>\<open>\b[A-Za-z0-9._%+-]+@[A-Za-z0-9.-]+\.[A-Z|a-z]{2,}\b\<close>\<close>
  "email_pattern =
     (let alnum = [Rng CHR ''A'' CHR ''Z'', Rng CHR ''a'' CHR ''z'', Rng CHR ''0'' CHR ''9''];
          user = Cls True (alnum @ [Ch CHR ''.'', Ch CHR ''_'', Ch CHR ''%'', Ch CHR ''+'', Ch CHR ''-'']);
          host = Cls True (alnum @ [Ch CHR ''.'', Ch CHR ''-'']);
          tld = Cls True [Rng CHR ''A'' CHR ''Z'', Ch CHR ''|'', Rng CHR ''a'' CHR ''z'']
      in seq [WordB, plus user, lit CHR ''@'', plus host, lit CHR ''.'', tld, tld, Star tld, WordB])"

definition skills_pattern :: regex where
  \<comment> \<open>\<open>skills?\s*:?\s*([^\n]+(?:\n[^\n]*)*?)(?:\n\s*\n|\Z)\<close>\<close>
  "skills_pattern = seq [str ''skill'', opt (lit CHR ''s''), heading_sep, section_body]"

definition experience_pattern :: regex where
  \<comment> \<open>\<open>experience\s*:?\s*([^\n]+(?:\n[^\n]*)*?)(?:\n\s*\n|\Z)\<close>\<close>
  "experience_pattern = seq [str ''experience'', heading_sep, section_body]"

definition projects_pattern :: regex where
  \<comment> \<open>\<open>projects?\s*:?\s*([^\n]+(?:\n[^\n]*)*?)(?:\n\s*\n|\Z)\<close>\<close>
  "projects_pattern = seq [str ''project'', opt (lit CHR ''s''), heading_sep, section_body]"

definition tech_skills :: "string list" where
  "tech_skills =
    [''python'', ''java'', ''javascript'', ''react'', ''angular'', ''vue'', ''node.js'',
     ''django'', ''flask'', ''spring'', ''docker'', ''kubernetes'', ''aws'', ''azure'',
     ''gcp'', ''git'', ''jenkins'', ''machine learning'', ''deep learning'', ''nlp'',
     ''data science'', ''sql'', ''mongodb'', ''postgresql'', ''mysql'', ''html'', ''css'',
     ''tensorflow'', ''pytorch'', ''pandas'', ''numpy'', ''scikit-learn'', ''c++'',
     ''devops'', ''agile'', ''scrum'', ''analytics'', ''tableau'', ''powerbi'']"

definition degrees :: "string list" where
  "degrees = [''bachelor'', ''master'', ''phd'', ''b.tech'', ''m.tech'', ''mba'', ''b.e'',
     ''m.e'', ''bsc'', ''msc'']"

definition clean_text :: "string \<Rightarrow> string" where
  "clean_text text = strip (collapse_ws text)"

definition extract_name :: "string \<Rightarrow> string" where
  "extract_name text =
     (case split_lines text of
        [] \<Rightarrow> ''Unknown Candidate''
      | l # _ \<Rightarrow>
          (let first_line = strip l in
           if length (split_ws first_line) \<le> 4 \<and> 2 < length first_line then first_line
           else ''Unknown Candidate''))"

definition extract_email :: "string \<Rightarrow> string" where
  \<comment> \<open>\<open>findall\<close> lists the matches from left to right; its first element, the only one
      used, is the match that \<open>search\<close> finds\<close>
  "extract_email text =
     (case search False email_pattern text of
        Some m \<Rightarrow> group0 text m
      | None \<Rightarrow> ''No email found'')"

definition add_section_skill :: "string list \<Rightarrow> string \<Rightarrow> string list" where
  \<comment> \<open>one turn of the loop over the pieces of the skills section\<close>
  "add_section_skill found skill =
     (let clean_skill = lower (strip skill) in
      if 2 < length clean_skill \<and> clean_skill \<notin> set found then found @ [clean_skill]
      else found)"

definition extract_skills :: "order \<Rightarrow> string \<Rightarrow> string list" where
  "extract_skills h text =
     (let text_lower = lower text;
          found = filter (\<lambda>skill. contains skill text_lower) tech_skills;
          found' = (case search True skills_pattern text of
                      None \<Rightarrow> found
                    | Some m \<Rightarrow> foldl add_section_skill found
                                 (split_by is_separator (group1 text m)))
      in py_list h (py_set found'))"

definition extract_experience :: "string \<Rightarrow> pydict list" where
  "extract_experience text =
     (case search True experience_pattern text of
        None \<Rightarrow> []
      | Some m \<Rightarrow> [[(''description'', take 300 (group1 text m))]])"

definition extract_education :: "string \<Rightarrow> pydict list" where
  "extract_education text =
     (let text_lower = lower text in
      map (\<lambda>degree. [(''degree'', upper degree)])
        (filter (\<lambda>degree. contains degree text_lower) degrees))"

definition extract_projects :: "string \<Rightarrow> pydict list" where
  "extract_projects text =
     (case search True projects_pattern text of
        None \<Rightarrow> []
      | Some m \<Rightarrow> [[(''description'', take 300 (group1 text m))]])"

definition resume_parse :: "(string \<Rightarrow> string) \<Rightarrow> string \<Rightarrow> order \<Rightarrow> string \<Rightarrow> Resume" where
  "resume_parse md5hex now h raw =
     (let text = clean_text raw;
          rid = take 12 (md5hex (take 100 text @ ''_'' @ now))
      in \<lparr> resume_id = rid,
           name = extract_name text,
           email = extract_email text,
           skills = extract_skills h text,
           experience = extract_experience text,
           education = extract_education text,
           projects = extract_projects text,
           raw_text = text \<rparr>)"

section \<open>JobDescriptionParser\<close>

definition job_title_pattern :: regex where
  \<comment> \<open>\<open>job\s*title\s*:?\s*([^\n]+)\<close>\<close>
  "job_title_pattern = seq [str ''job'', Star ws, str ''title'', heading_sep, Grp (plus not_nl)]"

definition position_pattern :: regex where
  \<comment> \<open>\<open>position\s*:?\s*([^\n]+)\<close>\<close>
  "position_pattern = seq [str ''position'', heading_sep, Grp (plus not_nl)]"

definition role_pattern :: regex where
  \<comment> \<open>\<open>role\s*:?\s*([^\n]+)\<close>\<close>
  "role_pattern = seq [str ''role'', heading_sep, Grp (plus not_nl)]"

definition title_patterns :: "regex list" where
  "title_patterns = [job_title_pattern, position_pattern, role_pattern]"

definition must_have_patterns :: "regex list" where
  \<comment> \<open>\<open>required\s*skills?\<close>, \<open>must\s*have\<close>, \<open>mandatory\<close>, each followed by
      \<open>\s*:?\s*([^\n]+(?:\n[^\n]*)*?)(?:\n\s*\n|\Z)\<close>\<close>
  "must_have_patterns =
     [seq [str ''required'', Star ws, str ''skill'', opt (lit CHR ''s''), heading_sep, section_body],
      seq [str ''must'', Star ws, str ''have'', heading_sep, section_body],
      seq [str ''mandatory'', heading_sep, section_body]]"

definition good_to_have_patterns :: "regex list" where
  \<comment> \<open>\<open>good\s*to\s*have\<close>, \<open>preferred\<close>, \<open>nice\s*to\s*have\<close>, with the same tail\<close>
  "good_to_have_patterns =
     [seq [str ''good'', Star ws, str ''to'', Star ws, str ''have'', heading_sep, section_body],
      seq [str ''preferred'', heading_sep, section_body],
      seq [str ''nice'', Star ws, str ''to'', Star ws, str ''have'', heading_sep, section_body]]"

definition years_number :: regex where
  \<comment> \<open>\<open>(\d+[\+\-]?\d*)\<close>\<close>
  "years_number = Grp (seq [plus digit, opt (Cls True [Ch CHR ''+'', Ch CHR ''-'']), Star digit])"

definition exp_patterns :: "regex list" where
  \<comment> \<open>\<open>(\d+[\+\-]?\d*)\s*years?\s*(?:of\s*)?experience\<close> and
      \<open>experience\s*:?\s*(\d+[\+\-]?\d*)\s*years?\<close>\<close>
  "exp_patterns =
     [seq [years_number, Star ws, str ''year'', opt (lit CHR ''s''), Star ws,
           opt (Cat (str ''of'') (Star ws)), str ''experience''],
      seq [str ''experience'', heading_sep, years_number, Star ws, str ''year'', opt (lit CHR ''s'')]]"

definition common_tech_skills :: "string list" where
  "common_tech_skills = [''python'', ''java'', ''javascript'', ''react'', ''sql'', ''aws'', ''docker'']"

fun first_match :: "regex list \<Rightarrow> string \<Rightarrow> match option" where
  \<comment> \<open>the loop over the patterns, left at the first one that matches\<close>
  "first_match [] text = None"
| "first_match (p # ps) text =
     (case search True p text of Some m \<Rightarrow> Some m | None \<Rightarrow> first_match ps text)"

definition section_skills :: "string \<Rightarrow> string list" where
  \<comment> \<open>\<open>[s.strip().lower() for s in extracted if s.strip() and len(s.strip()) > 2]\<close>\<close>
  "section_skills skills_text =
     map (\<lambda>s. lower (strip s))
       (filter (\<lambda>s. strip s \<noteq> [] \<and> 2 < length (strip s)) (split_by is_separator skills_text))"

definition extract_title :: "string \<Rightarrow> string" where
  "extract_title text =
     (case first_match title_patterns text of
        Some m \<Rightarrow> strip (group1 text m)
      | None \<Rightarrow>
          (case split_lines text of
             [] \<Rightarrow> ''Software Developer''
           | l # _ \<Rightarrow> if length l \<le> 80 then strip l else ''Software Developer''))"

definition extract_must_have_skills :: "order \<Rightarrow> string \<Rightarrow> string list" where
  "extract_must_have_skills h text =
     (let found = (case first_match must_have_patterns text of
                     Some m \<Rightarrow> section_skills (group1 text m)
                   | None \<Rightarrow> []);
          found' = (if found = []
                    then filter (\<lambda>skill. contains skill (lower text)) common_tech_skills
                    else found)
      in take 15 (py_list h (py_set found')))"

definition extract_good_to_have_skills :: "order \<Rightarrow> string \<Rightarrow> string list" where
  "extract_good_to_have_skills h text =
     (let found = (case first_match good_to_have_patterns text of
                     Some m \<Rightarrow> section_skills (group1 text m)
                   | None \<Rightarrow> [])
      in take 10 (py_list h (py_set found)))"

definition extract_experience_requirement :: "string \<Rightarrow> string" where
  "extract_experience_requirement text =
     (case first_match exp_patterns text of
        Some m \<Rightarrow> group1 text m @ '' years''
      | None \<Rightarrow> ''Not specified'')"

definition jd_parse ::
  "(string \<Rightarrow> string) \<Rightarrow> string \<Rightarrow> order \<Rightarrow> string \<Rightarrow> string \<Rightarrow> string \<Rightarrow> JobDescription" where
  "jd_parse md5hex now h raw company_name place =
     (let text = clean_text raw;
          jid = take 12 (md5hex (company_name @ ''_'' @ take 100 text @ ''_'' @ now))
      in \<lparr> jd_id = jid,
           title = extract_title text,
           company = company_name,
           must_have_skills = extract_must_have_skills h text,
           good_to_have_skills = extract_good_to_have_skills h text,
           experience_required = extract_experience_requirement text,
           description = text,
           location = place \<rparr>)"

section \<open>The UI actions and the session store\<close>

text \<open>
  The session store is \<open>st.session_state\<close>: the list of parsed job descriptions and the
  list of evaluation results. A call that may raise returns an \<open>outcome\<close>: the exception
  (its message) or the value. The parsers, the evaluator, the text extraction of an
  uploaded file and the rendering of a result are the callees of the two actions, taken
  as parameters, so that each may raise; \<open>st.error\<close>, \<open>st.warning\<close> and \<open>st.success\<close>
  append to the messages shown.
\<close>

datatype 'a outcome = Raised string | Returned 'a

datatype message = St_error string | St_warning string | St_success string

record session_state =
  job_descriptions :: "JobDescription list"
  evaluations :: "EvaluationResult list"

record app =
  session :: session_state
  shown :: "message list"

definition display :: "message \<Rightarrow> app \<Rightarrow> app" where
  "display m a = a\<lparr> shown := shown a @ [m] \<rparr>"

definition append_job_description :: "JobDescription \<Rightarrow> app \<Rightarrow> app" where
  \<comment> \<open>\<open>st.session_state.job_descriptions.append(job_desc)\<close>\<close>
  "append_job_description job_desc a =
     a\<lparr> session := (session a)\<lparr> job_descriptions := job_descriptions (session a) @ [job_desc] \<rparr> \<rparr>"

definition append_evaluation :: "EvaluationResult \<Rightarrow> app \<Rightarrow> app" where
  \<comment> \<open>\<open>st.session_state.evaluations.append(evaluation)\<close>\<close>
  "append_evaluation evaluation a =
     a\<lparr> session := (session a)\<lparr> evaluations := evaluations (session a) @ [evaluation] \<rparr> \<rparr>"

definition parse_job_description_pressed ::
  "(string \<Rightarrow> string \<Rightarrow> string \<Rightarrow> JobDescription outcome) \<Rightarrow> (JobDescription \<Rightarrow> unit outcome)
     \<Rightarrow> string \<Rightarrow> string \<Rightarrow> string \<Rightarrow> app \<Rightarrow> app" where
  \<comment> \<open>the body of \<open>if st.button("Parse Job Description")\<close> in \<open>upload_job_description\<close>\<close>
  "parse_job_description_pressed job_parser_parse render company_name place jd_text a =
     (if company_name = [] then display (St_error ''Company name is required!'') a
      else if jd_text = []
      then display (St_error ''Please provide job description text or upload a file!'') a
      else (case job_parser_parse jd_text company_name place of
              Raised e \<Rightarrow> display (St_error (''Error parsing job description: '' @ e)) a
            | Returned job_desc \<Rightarrow>
                (let a1 = append_job_description job_desc a;
                     a2 = display (St_success ''Job description parsed successfully!'') a1
                 in case render job_desc of
                      Raised e \<Rightarrow> display (St_error (''Error parsing job description: '' @ e)) a2
                    | Returned u \<Rightarrow> a2)))"

definition evaluate_resume_pressed ::
  "('f \<Rightarrow> string outcome) \<Rightarrow> (string \<Rightarrow> Resume outcome)
     \<Rightarrow> (Resume \<Rightarrow> JobDescription \<Rightarrow> EvaluationResult outcome)
     \<Rightarrow> (EvaluationResult \<Rightarrow> Resume \<Rightarrow> JobDescription \<Rightarrow> unit outcome)
     \<Rightarrow> JobDescription \<Rightarrow> 'f \<Rightarrow> app \<Rightarrow> app" where
  \<comment> \<open>the body of \<open>if uploaded_resume and st.button("Evaluate Resume")\<close>: one \<open>try\<close>, whose
      handler reports the exception\<close>
  "evaluate_resume_pressed extract_text resume_parser_parse evaluator_evaluate render
       selected_job uploaded_resume a =
     (let failed = (\<lambda>e b. display (St_error (''Error processing resume: '' @ e)) b) in
      case extract_text uploaded_resume of
        Raised e \<Rightarrow> failed e a
      | Returned resume_text \<Rightarrow>
          if resume_text = []
          then display (St_error
                 ''Could not extract text from the resume. Please try a different file.'') a
          else (case resume_parser_parse resume_text of
                  Raised e \<Rightarrow> failed e a
                | Returned resume \<Rightarrow>
                    (case evaluator_evaluate resume selected_job of
                       Raised e \<Rightarrow> failed e a
                     | Returned evaluation \<Rightarrow>
                         (let a1 = append_evaluation evaluation a;
                              a2 = display (St_success ''Resume evaluated successfully!'') a1
                          in case render evaluation resume selected_job of
                               Raised e \<Rightarrow> failed e a2
                             | Returned u \<Rightarrow> a2))))"

definition upload_resume ::
  "('f \<Rightarrow> string outcome) \<Rightarrow> (string \<Rightarrow> Resume outcome)
     \<Rightarrow> (Resume \<Rightarrow> JobDescription \<Rightarrow> EvaluationResult outcome)
     \<Rightarrow> (EvaluationResult \<Rightarrow> Resume \<Rightarrow> JobDescription \<Rightarrow> unit outcome)
     \<Rightarrow> nat \<Rightarrow> 'f option \<Rightarrow> bool \<Rightarrow> app \<Rightarrow> app outcome" where
  \<comment> \<open>the page: the job chosen by its index in the store, the file uploaded if any, and
      whether the button was pressed; an index outside the list raises before the \<open>try\<close>\<close>
  "upload_resume extract_text resume_parser_parse evaluator_evaluate render
       selected_job_idx uploaded_resume pressed a =
     (if job_descriptions (session a) = []
      then Returned (display (St_warning ''Please upload at least one job description first!'') a)
      else if length (job_descriptions (session a)) \<le> selected_job_idx
      then Raised ''list index out of range''
      else (case uploaded_resume of
              None \<Rightarrow> Returned a
            | Some f \<Rightarrow>
                if pressed
                then Returned (evaluate_resume_pressed extract_text resume_parser_parse
                       evaluator_evaluate render (job_descriptions (session a) ! selected_job_idx) f a)
                else Returned a))"

definition upload_job_description ::
  "(string \<Rightarrow> string \<Rightarrow> string \<Rightarrow> JobDescription outcome) \<Rightarrow> (JobDescription \<Rightarrow> unit outcome)
     \<Rightarrow> string \<Rightarrow> string \<Rightarrow> string \<Rightarrow> bool \<Rightarrow> app \<Rightarrow> app" where
  \<comment> \<open>the page: the company, the location, the text pasted or extracted, and whether the
      button was pressed\<close>
  "upload_job_description job_parser_parse render company_name place jd_text pressed a =
     (if pressed
      then parse_job_description_pressed job_parser_parse render company_name place jd_text a
      else a)"

section \<open>The score as the specification words it\<close>

text \<open>
  The specification's formula, over sets of lowercased skills: a coverage term is
  present when the job's set is not empty, a flat term when the section of the resume
  is not empty; the terms present are added from left to right, capped and rounded.
\<close>

definition coverage_term :: "rat \<Rightarrow> string set \<Rightarrow> string set \<Rightarrow> rat list" where
  "coverage_term w R J =
     (if J = {} then [] else [py_mul (py_truediv (card (R \<inter> J)) (card J)) w])"

definition flat_term :: "rat \<Rightarrow> bool \<Rightarrow> rat list" where
  "flat_term w present = (if present then [w] else [])"

definition spec_score :: "Resume \<Rightarrow> JobDescription \<Rightarrow> rat" where
  "spec_score r j =
    (let R = lower ` set (skills r);
         M = lower ` set (must_have_skills j);
         G = lower ` set (good_to_have_skills j);
         S = foldl py_add 0
               (coverage_term 50 R M @ coverage_term 20 R G
                @ flat_term 15 (experience r \<noteq> [])
                @ flat_term 10 (education r \<noteq> [])
                @ flat_term 5 (projects r \<noteq> []))
     in py_round2 (min 100 S))"

section \<open>What a skill string is\<close>

definition skill_ok :: "string \<Rightarrow> bool" where
  \<comment> \<open>lowercase already, and of three characters at least\<close>
  "skill_ok s = (lower s = s \<and> 3 \<le> length s)"

section \<open>A session with one job description\<close>

definition demo_job :: JobDescription where
  "demo_job = \<lparr> jd_id = ''0123456789ab'', title = ''Clerk'', company = ''Acme'',
     must_have_skills = [''sql''], good_to_have_skills = [], experience_required = ''Not specified'',
     description = ''Clerk'', location = ''Pune'' \<rparr>"

definition demo_app :: app where
  "demo_app = \<lparr> session = \<lparr> job_descriptions = [demo_job], evaluations = [] \<rparr>, shown = [] \<rparr>"

section \<open>Bounds of the double arithmetic\<close>

lemma pow2_pos: "0 < pow2 e"
  by (simp add: pow2_def)

lemma pow2_powi: "pow2 e = 2 powi e"
  by (simp add: pow2_def power_int_def power_one_over)

lemma rne_le_int: "q \<le> of_int n \<Longrightarrow> rne q \<le> n"
proof -
  assume q: "q \<le> of_int n"
  then have f: "\<lfloor>q\<rfloor> \<le> n"
    by (simp add: floor_le_iff) 
  show ?thesis
  proof (cases "\<lfloor>q\<rfloor> = n")
    case True
    with q have "q = of_int n"
      by (metis floor_le_iff of_int_floor_le order_antisym)
    then show ?thesis
      by (simp add: rne_def)
  next
    case False
    with f have "\<lfloor>q\<rfloor> + 1 \<le> n" by simp
    then show ?thesis
      by (simp add: rne_def Let_def)
  qed
qed

lemma rne_nonneg: "0 \<le> q \<Longrightarrow> 0 \<le> rne q"
  by (simp add: rne_def Let_def)

lemma fl_nonneg: "0 \<le> q \<Longrightarrow> 0 \<le> fl q"
proof (cases "q = 0")
  case True
  then show ?thesis by (simp add: fl_def)
next
  case False
  assume q: "0 \<le> q"
  let ?u = "pow2 (max (binexp q) (- 1022) - 52)"
  have "0 \<le> q / ?u"
    using q pow2_pos [of "max (binexp q) (- 1022) - 52"] by simp
  then have "0 \<le> rne (q / ?u)"
    by (rule rne_nonneg)
  then have "0 \<le> of_int (rne (q / ?u)) * ?u"
    using pow2_pos [of "max (binexp q) (- 1022) - 52"] by simp
  then show ?thesis
    using False by (simp add: fl_def Let_def)
qed

lemma binexp_lower: "q \<noteq> 0 \<Longrightarrow> pow2 (binexp q) \<le> \<bar>q\<bar>"
proof -
  assume nz: "q \<noteq> 0"
  obtain a b where ab: "quotient_of \<bar>q\<bar> = (a, b)"
    by (cases "quotient_of \<bar>q\<bar>")
  then have b: "0 < b" and q: "\<bar>q\<bar> = of_int a / of_int b"
    using quotient_of_denom_pos quotient_of_div by blast+
  from nz have "0 < \<bar>q\<bar>" by simp
  with q b have a: "0 < a"
    by (simp add: zero_less_divide_iff)
  let ?d = "bitlen a - bitlen b"
  show ?thesis
  proof (cases "pow2 ?d \<le> \<bar>q\<bar>")
    case True
    then show ?thesis
      by (simp add: binexp_def ab Let_def)
  next
    case False
    have la: "(2::int) ^ nat (bitlen a - 1) \<le> a" and lb: "b < 2 ^ nat (bitlen b)"
      using bitlen_bounds [OF a] bitlen_bounds [OF b] by simp_all
    have pa: "0 < bitlen a" and pb: "0 < bitlen b"
      using a b bitlen_eq_zero_iff [of a] bitlen_eq_zero_iff [of b]
        bitlen_nonneg [of a] bitlen_nonneg [of b] by linarith+
    have "pow2 (?d - 1) = 2 powi (bitlen a - 1) / 2 powi (bitlen b)"
      by (simp add: pow2_powi power_int_diff)
    also have "\<dots> = (2::rat) ^ nat (bitlen a - 1) / 2 ^ nat (bitlen b)"
      using pa pb by (simp add: power_int_def)
    also have "\<dots> \<le> of_int a / of_int b"
    proof -
      have 1: "(2::rat) ^ nat (bitlen a - 1) \<le> of_int a"
        using la by (metis of_int_le_iff of_int_numeral of_int_power)
      have 2: "(of_int b :: rat) \<le> 2 ^ nat (bitlen b)"
        using lb by (metis less_imp_le of_int_le_iff of_int_numeral of_int_power)
      have 3: "(0::rat) < of_int b" using b by simp
      show ?thesis
        using 1 2 3 a by (intro frac_le) simp_all
    qed
    finally have "pow2 (?d - 1) \<le> \<bar>q\<bar>"
      by (simp only: q)
    moreover have "binexp q = ?d - 1"
      using False by (simp add: binexp_def ab Let_def)
    ultimately show ?thesis
      by simp
  qed
qed

lemma fl_le_100: "q \<le> 100 \<Longrightarrow> fl q \<le> 100"
proof (cases "q = 0")
  case True
  then show ?thesis by (simp add: fl_def)
next
  case False
  assume q: "q \<le> 100"
  let ?k = "max (binexp q) (- 1022) - 52"
  let ?u = "pow2 ?k"
  have u: "0 < ?u" by (rule pow2_pos)
  have fl: "fl q = of_int (rne (q / ?u)) * ?u"
    using False by (simp add: fl_def Let_def)
  show ?thesis
  proof (cases "q < 0")
    case True
    then have "q / ?u \<le> of_int 0"
      using u by (simp add: divide_le_0_iff)
    then have "rne (q / ?u) \<le> 0"
      by (rule rne_le_int)
    then have "of_int (rne (q / ?u)) * ?u \<le> 0"
      using u by (simp add: mult_le_0_iff)
    then show ?thesis
      using fl by simp
  next
    case nonneg: False
    have "binexp q < 7"
    proof (rule ccontr)
      assume "\<not> binexp q < 7"
      then have "7 \<le> binexp q" by simp
      then have "(2::rat) powi 7 \<le> 2 powi binexp q"
        by (intro power_int_increasing) simp_all
      also have "\<dots> \<le> \<bar>q\<bar>"
        using binexp_lower [OF False] by (simp add: pow2_powi)
      finally show False
        using q nonneg by simp
    qed
    then have k: "?k < 0" by simp
    define n where "n = nat (- ?k)"
    have un: "?u = 1 / 2 ^ n"
      using k by (simp add: pow2_def n_def)
    have "q / ?u \<le> 100 / ?u"
      using q u by (simp add: divide_right_mono)
    also have "100 / ?u = of_int (100 * 2 ^ n)"
      by (simp add: un)
    finally have "rne (q / ?u) \<le> 100 * 2 ^ n"
      by (rule rne_le_int)
    then have "(of_int (rne (q / ?u)) :: rat) \<le> of_int (100 * 2 ^ n)"
      by (simp only: of_int_le_iff)
    then have "of_int (rne (q / ?u)) * ?u \<le> of_int (100 * 2 ^ n) * ?u"
      using u by (simp add: mult_right_mono)
    also have "of_int (100 * 2 ^ n) * ?u = 100"
      by (simp add: un)
    finally show ?thesis
      using fl by simp
  qed
qed

lemma py_round2_range: "0 \<le> x \<Longrightarrow> x \<le> 100 \<Longrightarrow> 0 \<le> py_round2 x \<and> py_round2 x \<le> 100"
proof -
  assume x: "0 \<le> x" "x \<le> 100"
  then have "0 \<le> rne (x * 100)"
    by (intro rne_nonneg) simp
  moreover have "rne (x * 100) \<le> 10000"
    using x by (intro rne_le_int) simp
  ultimately have "0 \<le> (of_int (rne (x * 100)) :: rat) / 100"
    and "(of_int (rne (x * 100)) :: rat) / 100 \<le> 100"
    by simp_all
  then show ?thesis
    unfolding py_round2_def using fl_nonneg fl_le_100 by blast
qed

lemma py_add_nonneg: "0 \<le> x \<Longrightarrow> 0 \<le> y \<Longrightarrow> 0 \<le> py_add x y"
  by (simp add: py_add_def fl_nonneg)

lemma py_mul_nonneg: "0 \<le> x \<Longrightarrow> 0 \<le> y \<Longrightarrow> 0 \<le> py_mul x y"
  by (simp add: py_mul_def fl_nonneg)

lemma py_truediv_nonneg: "0 \<le> py_truediv m n"
  by (simp add: py_truediv_def fl_nonneg)

section \<open>Sets held as lists\<close>

lemma distinct_py_set: "distinct (py_set xs)"
  by (simp add: py_set_def)

lemma set_py_set: "set (py_set xs) = set xs"
  by (simp add: py_set_def)

lemma length_py_set: "length (py_set xs) = card (set xs)"
  by (simp add: py_set_def length_remdups_card_conv)

lemma py_set_empty: "py_set xs = [] \<longleftrightarrow> set xs = {}"
  by (simp add: py_set_def)

lemma set_intersection: "set (intersection a b) = set a \<inter> set b"
  by (auto simp: intersection_def)

lemma set_difference: "set (difference a b) = set a - set b"
  by (auto simp: difference_def)

lemma set_union_set: "set (union_set a b) = set a \<union> set b"
  by (auto simp: union_set_def)

lemma set_py_list: "set (py_list h s) = set s"
  by (simp add: py_list_def)

lemma distinct_py_list: "distinct (py_list h s) = distinct s"
  by (simp add: py_list_def)

lemma length_intersection:
  "length (intersection (py_set a) (py_set b)) = card (set a \<inter> set b)"
proof -
  have "distinct (intersection (py_set a) (py_set b))"
    by (simp add: intersection_def distinct_py_set)
  then have "length (intersection (py_set a) (py_set b))
      = card (set (intersection (py_set a) (py_set b)))"
    by (simp add: distinct_card)
  then show ?thesis
    by (simp add: set_intersection set_py_set)
qed

section \<open>Small numbers are doubles\<close>

lemma py_add_0_15: "py_add 0 15 = 15"
  by code_simp

lemma py_add_15_10: "py_add 15 10 = 25"
  by code_simp

lemma py_add_25_5: "py_add 25 5 = 30"
  by code_simp

lemma py_round2_30: "py_round2 30 = 30"
  by code_simp

section \<open>The scorer\<close>

text \<open>
  C1. For every resume and job description, the relevance score that evaluate returns
  is round(min(100, S), 2), S being the sum of the must-have coverage times 50 (when
  the must-have set is not empty), the good-to-have coverage times 20 (when that set is
  not empty), 15 for a non-empty experience list, 10 for education and 5 for projects;
  a coverage is the number of lowercased resume skills in the lowercased job set over
  the size of that set. The operations are Python's, on doubles.
\<close>

theorem evaluate_relevance_score:
  "relevance_score (evaluate h r j) = spec_score r j"
proof -
  let ?R = "map lower (skills r)"
  let ?M = "map lower (must_have_skills j)"
  let ?G = "map lower (good_to_have_skills j)"
  have m: "length (intersection (py_set ?R) (py_set ?M))
      = card (lower ` set (skills r) \<inter> lower ` set (must_have_skills j))"
    by (simp add: length_intersection)
  have g: "length (intersection (py_set ?R) (py_set ?G))
      = card (lower ` set (skills r) \<inter> lower ` set (good_to_have_skills j))"
    by (simp add: length_intersection)
  have lm: "length (py_set ?M) = card (lower ` set (must_have_skills j))"
    by (simp add: length_py_set)
  have lg: "length (py_set ?G) = card (lower ` set (good_to_have_skills j))"
    by (simp add: length_py_set)
  have em: "py_set ?M = [] \<longleftrightarrow> must_have_skills j = []"
    by (simp add: py_set_def)
  have eg: "py_set ?G = [] \<longleftrightarrow> good_to_have_skills j = []"
    by (simp add: py_set_def)
  show ?thesis
    unfolding evaluate_def spec_score_def Let_def coverage_term_def flat_term_def
    by (simp add: m g lm lg em eg)
qed

text \<open>
  C3. In every result of evaluate, the matched skills are among the lowercased must-have
  and good-to-have skills of the job, the missing skills are among the lowercased
  must-have skills, no missing skill is a lowercased skill of the resume, and a
  good-to-have skill that is not a must-have skill is never reported missing.
\<close>

theorem evaluate_matched_missing:
  "set (matched_skills (evaluate h r j))
     \<subseteq> lower ` set (must_have_skills j) \<union> lower ` set (good_to_have_skills j)
   \<and> set (missing_skills (evaluate h r j)) \<subseteq> lower ` set (must_have_skills j)
   \<and> set (missing_skills (evaluate h r j)) \<inter> lower ` set (skills r) = {}
   \<and> set (missing_skills (evaluate h r j))
       \<inter> (lower ` set (good_to_have_skills j) - lower ` set (must_have_skills j)) = {}"
proof -
  have matched: "set (matched_skills (evaluate h r j)) =
      (lower ` set (skills r) \<inter> lower ` set (must_have_skills j))
      \<union> (lower ` set (skills r) \<inter> lower ` set (good_to_have_skills j))"
    by (simp add: evaluate_def Let_def set_py_list set_union_set set_intersection set_py_set)
  have missing: "set (missing_skills (evaluate h r j)) =
      lower ` set (must_have_skills j) - lower ` set (skills r)"
    by (simp add: evaluate_def Let_def set_py_list set_difference set_py_set)
  show ?thesis
    unfolding matched missing by blast
qed

text \<open>
  C4. A resume whose experience, education and projects lists are not empty, evaluated
  against a job description whose must-have and good-to-have lists are both empty,
  scores exactly 15 + 10 + 5 = 30, and the verdict is LOW.
\<close>

theorem evaluate_no_skills_30_LOW:
  assumes "experience r \<noteq> []" and "education r \<noteq> []" and "projects r \<noteq> []"
    and "must_have_skills j = []" and "good_to_have_skills j = []"
  shows "relevance_score (evaluate h r j) = 30 \<and> verdict (evaluate h r j) = ''LOW''"
  using assms
  by (simp add: evaluate_def Let_def py_set_def py_add_0_15 py_add_15_10 py_add_25_5 py_round2_30)

theorem evaluate_no_skills_30_LOW_witness:
  "relevance_score (evaluate (\<lambda>s x. 0)
      \<lparr> resume_id = ''r1'', name = ''Ada'', email = ''ada@x.org'', skills = [''python''],
        experience = [[(''description'', ''two years'')]],
        education = [[(''degree'', ''MSC'')]],
        projects = [[(''description'', ''a compiler'')]], raw_text = ''Ada'' \<rparr>
      \<lparr> jd_id = ''j1'', title = ''Clerk'', company = ''Acme'', must_have_skills = [],
        good_to_have_skills = [], experience_required = ''Not specified'',
        description = ''Clerk'', location = [] \<rparr>) = 30
   \<and> verdict (evaluate (\<lambda>s x. 0)
      \<lparr> resume_id = ''r1'', name = ''Ada'', email = ''ada@x.org'', skills = [''python''],
        experience = [[(''description'', ''two years'')]],
        education = [[(''degree'', ''MSC'')]],
        projects = [[(''description'', ''a compiler'')]], raw_text = ''Ada'' \<rparr>
      \<lparr> jd_id = ''j1'', title = ''Clerk'', company = ''Acme'', must_have_skills = [],
        good_to_have_skills = [], experience_required = ''Not specified'',
        description = ''Clerk'', location = [] \<rparr>) = ''LOW''"
  using evaluate_no_skills_30_LOW
    [of "\<lparr> resume_id = ''r1'', name = ''Ada'', email = ''ada@x.org'', skills = [''python''],
        experience = [[(''description'', ''two years'')]],
        education = [[(''degree'', ''MSC'')]],
        projects = [[(''description'', ''a compiler'')]], raw_text = ''Ada'' \<rparr>"
        "\<lparr> jd_id = ''j1'', title = ''Clerk'', company = ''Acme'', must_have_skills = [],
        good_to_have_skills = [], experience_required = ''Not specified'',
        description = ''Clerk'', location = [] \<rparr>" "\<lambda>s x. 0"]
  by simp

lemma relevance_score_range:
  "0 \<le> relevance_score (evaluate h r j) \<and> relevance_score (evaluate h r j) \<le> 100"
proof -
  define s1 where "s1 = (if py_set (map lower (must_have_skills j)) \<noteq> []
      then py_add 0 (py_mul (py_truediv
             (length (intersection (py_set (map lower (skills r)))
                (py_set (map lower (must_have_skills j)))))
             (length (py_set (map lower (must_have_skills j))))) 50)
      else 0)"
  define s2 where "s2 = (if py_set (map lower (good_to_have_skills j)) \<noteq> []
      then py_add s1 (py_mul (py_truediv
             (length (intersection (py_set (map lower (skills r)))
                (py_set (map lower (good_to_have_skills j)))))
             (length (py_set (map lower (good_to_have_skills j))))) 20)
      else s1)"
  define s3 where "s3 = (if experience r \<noteq> [] then py_add s2 15 else s2)"
  define s4 where "s4 = (if education r \<noteq> [] then py_add s3 10 else s3)"
  define s5 where "s5 = (if projects r \<noteq> [] then py_add s4 5 else s4)"
  have 1: "0 \<le> s1"
    by (simp add: s1_def py_add_nonneg py_mul_nonneg py_truediv_nonneg)
  then have 2: "0 \<le> s2"
    by (simp add: s2_def py_add_nonneg py_mul_nonneg py_truediv_nonneg)
  then have 3: "0 \<le> s3"
    by (simp add: s3_def py_add_nonneg)
  then have 4: "0 \<le> s4"
    by (simp add: s4_def py_add_nonneg)
  then have 5: "0 \<le> s5"
    by (simp add: s5_def py_add_nonneg)
  have "relevance_score (evaluate h r j) = py_round2 (min 100 s5)"
    by (simp add: evaluate_def Let_def s1_def s2_def s3_def s4_def s5_def)
  moreover have "0 \<le> min 100 s5" and "min 100 s5 \<le> 100"
    using 5 by simp_all
  ultimately show ?thesis
    using py_round2_range by simp
qed

text \<open>
  C2, at one input. The resume has the skills python, sql and git and an education
  entry only; the job asks for python, sql and docker and prefers gcp, git and css. The
  sum 2/3 * 50 + 1/3 * 20 + 10 is 50 in exact arithmetic and 49.99999999999999 in
  doubles: evaluate returns the relevance score 50.0 with the verdict LOW, whatever
  the order of set iteration.
\<close>

theorem evaluate_score_50_verdict_LOW:
  "relevance_score (evaluate h
      \<lparr> resume_id = ''r1'', name = ''Unknown Candidate'', email = ''No email found'',
        skills = [''python'', ''sql'', ''git''], experience = [],
        education = [[(''degree'', ''MBA'')]], projects = [], raw_text = ''Asha'' \<rparr>
      \<lparr> jd_id = ''j1'', title = ''Clerk'', company = ''Acme'',
        must_have_skills = [''python'', ''sql'', ''docker''],
        good_to_have_skills = [''gcp'', ''git'', ''css''],
        experience_required = ''Not specified'', description = ''Clerk'', location = [] \<rparr>)
     = 50
   \<and> verdict (evaluate h
      \<lparr> resume_id = ''r1'', name = ''Unknown Candidate'', email = ''No email found'',
        skills = [''python'', ''sql'', ''git''], experience = [],
        education = [[(''degree'', ''MBA'')]], projects = [], raw_text = ''Asha'' \<rparr>
      \<lparr> jd_id = ''j1'', title = ''Clerk'', company = ''Acme'',
        must_have_skills = [''python'', ''sql'', ''docker''],
        good_to_have_skills = [''gcp'', ''git'', ''css''],
        experience_required = ''Not specified'', description = ''Clerk'', location = [] \<rparr>)
     = ''LOW''"
  by code_simp

text \<open>
  The same through the parsers, for one order of set iteration: the job text mentions
  python, sql and docker and prefers gcp, git, css; the resume text mentions python,
  sql, git and an MBA.
\<close>

lemma parsed_score_50_verdict_LOW:
  "relevance_score (evaluate (\<lambda>s x. 0)
      (resume_parse rev ''noon'' (\<lambda>s x. 0) ''Asha Rao, MBA. Knows python, sql, git'')
      (jd_parse rev ''noon'' (\<lambda>s x. 0)
         ''We use python, sql and docker. Preferred: gcp, git, css'' ''Acme'' ''Pune''))
     = 50
   \<and> verdict (evaluate (\<lambda>s x. 0)
      (resume_parse rev ''noon'' (\<lambda>s x. 0) ''Asha Rao, MBA. Knows python, sql, git'')
      (jd_parse rev ''noon'' (\<lambda>s x. 0)
         ''We use python, sql and docker. Preferred: gcp, git, css'' ''Acme'' ''Pune''))
     = ''LOW''"
  by code_simp

section \<open>Cleaned text\<close>

lemma is_space_newline: "is_space newline"
  by (simp add: is_space_def newline_def)

lemma collapse_ws_space: "c \<in> set (collapse_ws s) \<Longrightarrow> is_space c \<Longrightarrow> c = CHR '' ''"
  by (induction s rule: collapse_ws.induct) (auto split: if_splits)

lemma set_strip: "set (strip s) \<subseteq> set s"
proof -
  have "set (strip s) \<subseteq> set (dropWhile is_space s)"
    unfolding strip_def using set_dropWhileD [of _ is_space "rev (dropWhile is_space s)"]
    by auto
  then show ?thesis
    using set_dropWhileD [of _ is_space s] by blast
qed

lemma newline_notin_clean_text: "newline \<notin> set (clean_text raw)"
proof
  assume "newline \<in> set (clean_text raw)"
  then have "newline \<in> set (collapse_ws raw)"
    using set_strip by (auto simp: clean_text_def)
  then have "newline = CHR '' ''"
    using collapse_ws_space is_space_newline by blast
  then show False
    by (simp add: newline_def)
qed

lemma split_by_none: "\<forall>c \<in> set s. \<not> P c \<Longrightarrow> split_by P s = [s]"
  by (induction s) auto

lemma split_lines_clean_text: "split_lines (clean_text raw) = [clean_text raw]"
  unfolding split_lines_def
  using newline_notin_clean_text [of raw] by (intro split_by_none) auto

lemma dropWhile_rev_dropWhile:
  "a = [] \<or> \<not> P (hd a) \<Longrightarrow>
     dropWhile P (rev (dropWhile P (rev a))) = rev (dropWhile P (rev a))"
proof (induction a rule: rev_induct)
  case Nil
  then show ?case by simp
next
  case (snoc x xs)
  show ?case
  proof (cases "P x")
    case True
    from snoc.prems have "xs = [] \<or> \<not> P (hd xs)"
      by (cases xs) auto
    then show ?thesis
      using snoc.IH True by simp
  next
    case False
    from snoc.prems have "\<not> P (hd (xs @ [x]))"
      by simp
    then have "dropWhile P (xs @ [x]) = xs @ [x]"
      by (simp add: dropWhile_eq_self_iff)
    then show ?thesis
      using False by simp
  qed
qed

lemma strip_idem: "strip (strip s) = strip s"
proof -
  let ?a = "dropWhile is_space s"
  have "?a = [] \<or> \<not> is_space (hd ?a)"
    using hd_dropWhile [of is_space s] by blast
  then have "dropWhile is_space (rev (dropWhile is_space (rev ?a)))
      = rev (dropWhile is_space (rev ?a))"
    by (rule dropWhile_rev_dropWhile)
  then show ?thesis
    by (simp add: strip_def)
qed

lemma strip_clean_text: "strip (clean_text raw) = clean_text raw"
  by (simp add: clean_text_def strip_idem)

section \<open>The candidate's name\<close>

text \<open>
  C6. The name that a parse extracts is the cleaned text itself (whitespace collapsed,
  trimmed) when that text has at most 4 words and more than 2 characters, and
  "Unknown Candidate" otherwise: the cleaned text has no newline, so its first line is
  the whole of it.
\<close>

theorem resume_parse_name:
  "name (resume_parse md5hex now h raw) =
     (if length (split_ws (clean_text raw)) \<le> 4 \<and> 2 < length (clean_text raw)
      then clean_text raw else ''Unknown Candidate'')
   \<and> split_lines (clean_text raw) = [clean_text raw]"
  by (simp add: resume_parse_def extract_name_def split_lines_clean_text strip_clean_text Let_def)

section \<open>The job title\<close>

text \<open>
  C7. The title that a parse extracts is the capture (stripped) of the first pattern
  that matches the cleaned text, among job title, position and role in that order; when
  none matches it is the cleaned text itself if that has at most 80 characters, and
  "Software Developer" otherwise. In particular a cleaned text of at most 80 characters
  that no pattern matches, the empty one included, is its own title.
\<close>

theorem jd_parse_title:
  "title (jd_parse md5hex now h raw c l) =
     (let t = clean_text raw in
      case search True job_title_pattern t of
        Some m \<Rightarrow> strip (group1 t m)
      | None \<Rightarrow>
          (case search True position_pattern t of
             Some m \<Rightarrow> strip (group1 t m)
           | None \<Rightarrow>
               (case search True role_pattern t of
                  Some m \<Rightarrow> strip (group1 t m)
                | None \<Rightarrow> if length t \<le> 80 then t else ''Software Developer'')))
   \<and> (first_match title_patterns (clean_text raw) = None \<and> length (clean_text raw) \<le> 80
        \<longrightarrow> title (jd_parse md5hex now h raw c l) = clean_text raw)"
  by (simp add: jd_parse_def extract_title_def title_patterns_def split_lines_clean_text
      strip_clean_text Let_def split: option.split)

theorem jd_parse_title_witness:
  "first_match title_patterns (clean_text ''  Data   Engineer '') = None
   \<and> length (clean_text ''  Data   Engineer '') \<le> 80
   \<and> title (jd_parse rev ''noon'' (\<lambda>s x. 0) ''  Data   Engineer '' ''Acme'' ''Pune'')
       = ''Data Engineer''
   \<and> first_match title_patterns (clean_text []) = None
   \<and> length (clean_text []) \<le> 80
   \<and> title (jd_parse rev ''noon'' (\<lambda>s x. 0) [] ''Acme'' ''Pune'') = []"
proof -
  have a: "first_match title_patterns (clean_text ''  Data   Engineer '') = None"
    by code_simp
  have b: "clean_text ''  Data   Engineer '' = ''Data Engineer''"
    by code_simp
  have c: "first_match title_patterns (clean_text []) = None"
    by code_simp
  have d: "clean_text [] = []"
    by code_simp
  have e: "title (jd_parse rev ''noon'' (\<lambda>s x. 0) ''  Data   Engineer '' ''Acme'' ''Pune'')
      = ''Data Engineer''"
    using a b
      jd_parse_title [of rev "''noon''" "\<lambda>s x. 0" "''  Data   Engineer ''" "''Acme''" "''Pune''",
        THEN conjunct2]
    by simp
  have f: "title (jd_parse rev ''noon'' (\<lambda>s x. 0) [] ''Acme'' ''Pune'') = []"
    using c d
      jd_parse_title [of rev "''noon''" "\<lambda>s x. 0" "[]" "''Acme''" "''Pune''", THEN conjunct2]
    by simp
  from a b c d e f show ?thesis
    by simp
qed

section \<open>The skill extractors\<close>

lemma lower_chr_idem: "lower_chr (lower_chr c) = lower_chr c"
proof -
  have lt: "(of_char c :: nat) < 256" by simp
  show ?thesis
    unfolding lower_chr_def Let_def using lt
    by (auto simp: of_char_of)
qed

lemma lower_idem: "lower (lower s) = lower s"
  by (simp add: lower_def lower_chr_idem)

lemma length_lower: "length (lower s) = length s"
  by (simp add: lower_def)

lemma tech_skills_all_ok: "list_all skill_ok tech_skills"
  by code_simp

lemma common_tech_skills_all_ok: "list_all skill_ok common_tech_skills"
  by code_simp

lemma tech_skills_ok: "s \<in> set tech_skills \<Longrightarrow> skill_ok s"
  using tech_skills_all_ok by (simp add: list_all_iff)

lemma common_tech_skills_ok: "s \<in> set common_tech_skills \<Longrightarrow> skill_ok s"
  using common_tech_skills_all_ok by (simp add: list_all_iff)

lemma add_section_skill_ok:
  "\<forall>s \<in> set found. skill_ok s \<Longrightarrow> \<forall>s \<in> set (add_section_skill found x). skill_ok s"
  by (auto simp: add_section_skill_def Let_def skill_ok_def lower_idem)

lemma foldl_add_section_skill_ok:
  "\<forall>s \<in> set found. skill_ok s \<Longrightarrow> \<forall>s \<in> set (foldl add_section_skill found xs). skill_ok s"
proof (induction xs arbitrary: found)
  case Nil
  then show ?case by simp
next
  case (Cons x xs)
  from Cons.prems have "\<forall>s \<in> set (add_section_skill found x). skill_ok s"
    by (rule add_section_skill_ok)
  then show ?case
    using Cons.IH by simp
qed

lemma section_skills_ok: "s \<in> set (section_skills txt) \<Longrightarrow> skill_ok s"
  by (auto simp: section_skills_def skill_ok_def lower_idem length_lower)

lemma extract_skills_ok: "s \<in> set (extract_skills h text) \<Longrightarrow> skill_ok s"
proof -
  let ?found = "filter (\<lambda>skill. contains skill (lower text)) tech_skills"
  have base: "\<forall>s \<in> set ?found. skill_ok s"
    by (simp add: tech_skills_ok)
  assume "s \<in> set (extract_skills h text)"
  then show ?thesis
    using base foldl_add_section_skill_ok [OF base]
    by (auto simp: extract_skills_def Let_def set_py_list set_py_set split: option.splits)
qed

lemma distinct_extract_skills: "distinct (extract_skills h text)"
  by (simp add: extract_skills_def Let_def distinct_py_list distinct_py_set)

lemma extract_must_have_skills_ok:
  "s \<in> set (extract_must_have_skills h text) \<Longrightarrow> skill_ok s"
proof -
  assume "s \<in> set (extract_must_have_skills h text)"
  then have "s \<in> set (case first_match must_have_patterns text of
                 Some m \<Rightarrow> section_skills (group1 text m) | None \<Rightarrow> [])
             \<or> s \<in> set (filter (\<lambda>skill. contains skill (lower text)) common_tech_skills)"
    by (auto simp: extract_must_have_skills_def Let_def set_py_list set_py_set
        dest!: in_set_takeD split: if_splits)
  then show ?thesis
    by (auto simp: section_skills_ok common_tech_skills_ok split: option.splits)
qed

lemma distinct_extract_must_have_skills: "distinct (extract_must_have_skills h text)"
  by (simp add: extract_must_have_skills_def Let_def distinct_py_list distinct_py_set)

lemma extract_good_to_have_skills_ok:
  "s \<in> set (extract_good_to_have_skills h text) \<Longrightarrow> skill_ok s"
  by (auto simp: extract_good_to_have_skills_def Let_def set_py_list set_py_set section_skills_ok
      dest!: in_set_takeD split: option.splits)

lemma distinct_extract_good_to_have_skills: "distinct (extract_good_to_have_skills h text)"
  by (simp add: extract_good_to_have_skills_def Let_def distinct_py_list distinct_py_set)

text \<open>
  C10. For every text and every order of set iteration, each of the three skill
  extractors (resume skills, must-have skills, good-to-have skills) returns a list
  without duplicates, every string of which equals its own lowercasing and has three
  characters at least.
\<close>

theorem skill_extractors_invariant:
  "(\<forall>s \<in> set (extract_skills h text). lower s = s \<and> 3 \<le> length s)
   \<and> distinct (extract_skills h text)
   \<and> (\<forall>s \<in> set (extract_must_have_skills h text). lower s = s \<and> 3 \<le> length s)
   \<and> distinct (extract_must_have_skills h text)
   \<and> (\<forall>s \<in> set (extract_good_to_have_skills h text). lower s = s \<and> 3 \<le> length s)
   \<and> distinct (extract_good_to_have_skills h text)"
  using extract_skills_ok [of _ h "text"] extract_must_have_skills_ok [of _ h "text"]
    extract_good_to_have_skills_ok [of _ h "text"]
  by (simp add: skill_ok_def distinct_extract_skills distinct_extract_must_have_skills
      distinct_extract_good_to_have_skills)

theorem skill_extractors_invariant_witness:
  "''go lang'' \<in> set (extract_skills (\<lambda>s x. 0) ''Skills: Go Lang, SQL'')
   \<and> lower ''go lang'' = ''go lang'' \<and> 3 \<le> length ''go lang''
   \<and> ''rust'' \<in> set (extract_must_have_skills (\<lambda>s x. 0) ''Must have: Rust, SQL'')
   \<and> lower ''rust'' = ''rust'' \<and> 3 \<le> length ''rust''
   \<and> ''aws'' \<in> set (extract_good_to_have_skills (\<lambda>s x. 0) ''Preferred: AWS'')
   \<and> lower ''aws'' = ''aws'' \<and> 3 \<le> length ''aws''"
proof -
  have a: "''go lang'' \<in> set (extract_skills (\<lambda>s x. 0) ''Skills: Go Lang, SQL'')"
    by code_simp
  have b: "''rust'' \<in> set (extract_must_have_skills (\<lambda>s x. 0) ''Must have: Rust, SQL'')"
    by code_simp
  have c: "''aws'' \<in> set (extract_good_to_have_skills (\<lambda>s x. 0) ''Preferred: AWS'')"
    by code_simp
  from a b c
    skill_extractors_invariant [of "\<lambda>s x. 0" "''Skills: Go Lang, SQL''"]
    skill_extractors_invariant [of "\<lambda>s x. 0" "''Must have: Rust, SQL''"]
    skill_extractors_invariant [of "\<lambda>s x. 0" "''Preferred: AWS''"]
  show ?thesis
    by blast
qed

section \<open>Parsing a resume twice\<close>

text \<open>
  C5. Two parses of the same text, at two readings of the clock, yield records that
  agree on name, email, skills, experience, education, projects and raw text; the clock
  enters the identifier only. (The order of set iteration is the process's, the same
  for both calls.)
\<close>

theorem resume_parse_idempotent_up_to_id:
  "name (resume_parse md5hex now1 h raw) = name (resume_parse md5hex now2 h raw)
   \<and> email (resume_parse md5hex now1 h raw) = email (resume_parse md5hex now2 h raw)
   \<and> skills (resume_parse md5hex now1 h raw) = skills (resume_parse md5hex now2 h raw)
   \<and> experience (resume_parse md5hex now1 h raw) = experience (resume_parse md5hex now2 h raw)
   \<and> education (resume_parse md5hex now1 h raw) = education (resume_parse md5hex now2 h raw)
   \<and> projects (resume_parse md5hex now1 h raw) = projects (resume_parse md5hex now2 h raw)
   \<and> raw_text (resume_parse md5hex now1 h raw) = raw_text (resume_parse md5hex now2 h raw)"
  by (simp add: resume_parse_def Let_def)

lemma resume_parse_id_follows_clock:
  "resume_id (resume_parse (\<lambda>s. rev s) ''2024-01-01 10:00:00.000001'' h ''Ada'')
     \<noteq> resume_id (resume_parse (\<lambda>s. rev s) ''2024-01-01 10:00:00.000002'' h ''Ada'')"
  by (simp add: resume_parse_def Let_def)

section \<open>The experience entry\<close>

text \<open>
  C8. The experience list of a text is empty when the experience pattern (the word
  experience in any case, an optional colon, then everything up to a blank line or the
  end of the text) has no match in it, and otherwise holds one entry: the first 300
  characters of what the pattern captured. It never holds more than one entry.
\<close>

theorem extract_experience_one_entry:
  "extract_experience t =
     (case search True experience_pattern t of
        None \<Rightarrow> []
      | Some m \<Rightarrow> [[(''description'', take 300 (group1 t m))]])
   \<and> length (extract_experience t) \<le> 1"
  by (simp add: extract_experience_def split: option.split)

section \<open>The UI actions\<close>

lemma session_display: "session (display m a) = session a"
  by (simp add: display_def)

lemma shown_display: "shown (display m a) = shown a @ [m]"
  by (simp add: display_def)

text \<open>
  C9. In the resume action, when the parser raises, or the evaluator raises, the
  exception is caught: the action returns, the session store is what it was (nothing
  is appended to the evaluations) and the error is reported. In the job-description
  action, when the parser raises the store is what it was and the error is reported;
  and when the company name or the text is missing, the store is what it was.
\<close>

theorem ui_exception_commits_nothing:
  "(job_descriptions (session a) \<noteq> [] \<and> idx < length (job_descriptions (session a))
      \<and> extract_text f = Returned resume_text \<and> resume_text \<noteq> []
      \<and> resume_parser_parse resume_text = Raised e
    \<longrightarrow> upload_resume extract_text resume_parser_parse evaluator_evaluate render
          idx (Some f) True a
        = Returned (display (St_error (''Error processing resume: '' @ e)) a)
      \<and> session (display (St_error (''Error processing resume: '' @ e)) a) = session a)
   \<and> (job_descriptions (session a) \<noteq> [] \<and> idx < length (job_descriptions (session a))
      \<and> extract_text f = Returned resume_text \<and> resume_text \<noteq> []
      \<and> resume_parser_parse resume_text = Returned resume
      \<and> evaluator_evaluate resume (job_descriptions (session a) ! idx) = Raised e
    \<longrightarrow> upload_resume extract_text resume_parser_parse evaluator_evaluate render
          idx (Some f) True a
        = Returned (display (St_error (''Error processing resume: '' @ e)) a)
      \<and> session (display (St_error (''Error processing resume: '' @ e)) a) = session a)
   \<and> (company_name \<noteq> [] \<and> jd_text \<noteq> []
      \<and> job_parser_parse jd_text company_name place = Raised e
    \<longrightarrow> upload_job_description job_parser_parse render_job company_name place jd_text True a
        = display (St_error (''Error parsing job description: '' @ e)) a
      \<and> session (display (St_error (''Error parsing job description: '' @ e)) a) = session a)
   \<and> (company_name = [] \<or> jd_text = []
    \<longrightarrow> session (upload_job_description job_parser_parse render_job
          company_name place jd_text True a) = session a)"
  by (auto simp: upload_resume_def evaluate_resume_pressed_def upload_job_description_def
      parse_job_description_pressed_def session_display Let_def)

theorem ui_exception_commits_nothing_witness:
  "upload_resume Returned (\<lambda>t. Raised ''boom'') (\<lambda>r j. Raised ''unused'') (\<lambda>v r j. Returned ())
       0 (Some ''cv'') True demo_app
     = Returned (display (St_error (''Error processing resume: '' @ ''boom'')) demo_app)
   \<and> upload_resume Returned (\<lambda>t. Returned (resume_parse rev ''noon'' (\<lambda>s x. 0) t))
       (\<lambda>r j. Raised ''boom'') (\<lambda>v r j. Returned ()) 0 (Some ''cv'') True demo_app
     = Returned (display (St_error (''Error processing resume: '' @ ''boom'')) demo_app)
   \<and> session (display (St_error (''Error processing resume: '' @ ''boom'')) demo_app)
     = session demo_app
   \<and> upload_job_description (\<lambda>t c l. Raised ''boom'') (\<lambda>j. Returned ()) ''Acme'' ''Pune''
       ''Clerk wanted'' True demo_app
     = display (St_error (''Error parsing job description: '' @ ''boom'')) demo_app
   \<and> session (upload_job_description (\<lambda>t c l. Returned (jd_parse rev ''noon'' (\<lambda>s x. 0) t c l))
       (\<lambda>j. Returned ()) [] ''Pune'' ''Clerk wanted'' True demo_app) = session demo_app"
proof -
  have jobs: "job_descriptions (session demo_app) \<noteq> []"
    "0 < length (job_descriptions (session demo_app))"
    by (simp_all add: demo_app_def)
  have one: "upload_resume Returned (\<lambda>t. Raised ''boom'') (\<lambda>r j. Raised ''unused'')
       (\<lambda>v r j. Returned ()) 0 (Some ''cv'') True demo_app
     = Returned (display (St_error (''Error processing resume: '' @ ''boom'')) demo_app)
     \<and> session (display (St_error (''Error processing resume: '' @ ''boom'')) demo_app)
       = session demo_app"
    using jobs ui_exception_commits_nothing
      [where a = "demo_app"
        and idx = "0"
        and extract_text = "Returned"
        and f = "''cv''"
        and resume_text = "''cv''"
        and resume_parser_parse = "\<lambda>t. Raised ''boom''"
        and e = "''boom''"
        and evaluator_evaluate = "\<lambda>r j. Raised ''unused''"
        and render = "\<lambda>v r j. Returned ()"
        and resume = "resume_parse rev ''noon'' (\<lambda>s x. 0) ''cv''"
        and company_name = "''Acme''"
        and jd_text = "''Clerk wanted''"
        and job_parser_parse = "\<lambda>t c l. Raised ''boom''"
        and place = "''Pune''"
        and render_job = "\<lambda>j. Returned ()"]
    by simp
  have two: "upload_resume Returned (\<lambda>t. Returned (resume_parse rev ''noon'' (\<lambda>s x. 0) t))
       (\<lambda>r j. Raised ''boom'') (\<lambda>v r j. Returned ()) 0 (Some ''cv'') True demo_app
     = Returned (display (St_error (''Error processing resume: '' @ ''boom'')) demo_app)"
    using jobs ui_exception_commits_nothing
      [where a = "demo_app"
        and idx = "0"
        and extract_text = "Returned"
        and f = "''cv''"
        and resume_text = "''cv''"
        and resume_parser_parse = "\<lambda>t. Returned (resume_parse rev ''noon'' (\<lambda>s x. 0) t)"
        and e = "''boom''"
        and evaluator_evaluate = "\<lambda>r j. Raised ''boom''"
        and render = "\<lambda>v r j. Returned ()"
        and resume = "resume_parse rev ''noon'' (\<lambda>s x. 0) ''cv''"
        and company_name = "''Acme''"
        and jd_text = "''Clerk wanted''"
        and job_parser_parse = "\<lambda>t c l. Raised ''boom''"
        and place = "''Pune''"
        and render_job = "\<lambda>j. Returned ()"]
    by simp
  have three: "upload_job_description (\<lambda>t c l. Raised ''boom'') (\<lambda>j. Returned ()) ''Acme'' ''Pune''
       ''Clerk wanted'' True demo_app
     = display (St_error (''Error parsing job description: '' @ ''boom'')) demo_app"
    using ui_exception_commits_nothing
      [where a = "demo_app"
        and idx = "0"
        and extract_text = "Returned"
        and f = "''cv''"
        and resume_text = "''cv''"
        and resume_parser_parse = "\<lambda>t. Raised ''boom''"
        and e = "''boom''"
        and evaluator_evaluate = "\<lambda>r j. Raised ''unused''"
        and render = "\<lambda>v r j. Returned ()"
        and resume = "resume_parse rev ''noon'' (\<lambda>s x. 0) ''cv''"
        and company_name = "''Acme''"
        and jd_text = "''Clerk wanted''"
        and job_parser_parse = "\<lambda>t c l. Raised ''boom''"
        and place = "''Pune''"
        and render_job = "\<lambda>j. Returned ()"]
    by simp
  have four: "session (upload_job_description
       (\<lambda>t c l. Returned (jd_parse rev ''noon'' (\<lambda>s x. 0) t c l))
       (\<lambda>j. Returned ()) [] ''Pune'' ''Clerk wanted'' True demo_app) = session demo_app"
    using ui_exception_commits_nothing
      [where a = "demo_app"
        and idx = "0"
        and extract_text = "Returned"
        and f = "''cv''"
        and resume_text = "''cv''"
        and resume_parser_parse = "\<lambda>t. Raised ''boom''"
        and e = "''boom''"
        and evaluator_evaluate = "\<lambda>r j. Raised ''unused''"
        and render = "\<lambda>v r j. Returned ()"
        and resume = "resume_parse rev ''noon'' (\<lambda>s x. 0) ''cv''"
        and company_name = "[]"
        and jd_text = "''Clerk wanted''"
        and job_parser_parse = "\<lambda>t c l. Returned (jd_parse rev ''noon'' (\<lambda>s x. 0) t c l)"
        and place = "''Pune''"
        and render_job = "\<lambda>j. Returned ()"]
    by simp
  from one two three four show ?thesis
    by simp
qed

end
